theory Spec2Isabelle
  imports Main "HOL-Library.Sublist"
begin

section \<open>Bytes, errors and the library calls on byte slices\<close>

text \<open>
  A Go \<^verbatim>\<open>[]byte\<close> and a Go \<^verbatim>\<open>string\<close> are both sequences of 8-bit values; HOL's
  \<^typ>\<open>char\<close> is an 8-bit value too, so both are modelled as \<^typ>\<open>string\<close>.
  A Go \<^verbatim>\<open>error\<close> is an opaque value that carries a message (\<^verbatim>\<open>Error()\<close>).
\<close>

type_synonym bytes = string

datatype error = errors_New (Error: string)

text \<open>\<^verbatim>\<open>bytes.HasPrefix(s, prefix)\<close>.\<close>

definition HasPrefix :: "bytes \<Rightarrow> bytes \<Rightarrow> bool" where
  "HasPrefix s p = prefix p s"

text \<open>\<^verbatim>\<open>bytes.Contains(b, subslice)\<close>: \<^verbatim>\<open>subslice\<close> occurs in \<^verbatim>\<open>b\<close> as a
  contiguous run.\<close>

fun Contains :: "bytes \<Rightarrow> bytes \<Rightarrow> bool" where
  "Contains [] subslice = (subslice = [])"
| "Contains (b # bs) subslice = (prefix subslice (b # bs) \<or> Contains bs subslice)"

text \<open>
  \<^verbatim>\<open>bytes.ReplaceAll(s, old, new)\<close> for a non-empty \<^verbatim>\<open>old\<close>: the occurrences of
  \<^verbatim>\<open>old\<close> are found from the left, without overlap, and each is replaced by \<^verbatim>\<open>new\<close>.
  Both callers in \<^verbatim>\<open>client.go\<close> pass a non-empty literal. (For an empty \<^verbatim>\<open>old\<close> the
  library inserts \<^verbatim>\<open>new\<close> around every UTF-8 sequence; that case is not reached from
  this package and the model returns \<^verbatim>\<open>s\<close> there.)
\<close>

fun ReplaceAll :: "bytes \<Rightarrow> bytes \<Rightarrow> bytes \<Rightarrow> bytes" where
  "ReplaceAll [] old new = []"
| "ReplaceAll (b # bs) old new =
     (if old \<noteq> [] \<and> prefix old (b # bs)
      then new @ ReplaceAll (drop (length old) (b # bs)) old new
      else b # ReplaceAll bs old new)"

section \<open>Constants of the package\<close>

text \<open>
  Modelled from the spec: the constants \<^verbatim>\<open>SoapVersion11\<close>, \<^verbatim>\<open>SoapVersion12\<close>,
  \<^verbatim>\<open>SoapContentType11\<close>, \<^verbatim>\<open>SoapContentType12\<close>, \<^verbatim>\<open>bNamespaceSoap11\<close> and
  \<^verbatim>\<open>bNamespaceSoap12\<close> are used by \<^verbatim>\<open>client.go\<close> and declared in a file of the
  package that is not among the sources. The spec fixes the versions as \<^verbatim>\<open>1.1\<close> and
  \<^verbatim>\<open>1.2\<close>, the content types as the \<^verbatim>\<open>text/xml; charset=utf-8\<close> class value and the
  SOAP 1.2 media type, and the namespaces as the literal SOAP 1.1 and SOAP 1.2 envelope
  namespace URIs.
\<close>

definition SoapVersion11 :: string where
  "SoapVersion11 = ''1.1''"

definition SoapVersion12 :: string where
  "SoapVersion12 = ''1.2''"

definition SoapContentType11 :: string where
  "SoapContentType11 = ''text/xml; charset=\"utf-8\"''"

definition SoapContentType12 :: string where
  "SoapContentType12 = ''application/soap+xml; charset=\"utf-8\"''"

definition bNamespaceSoap11 :: bytes where
  "bNamespaceSoap11 = ''http://schemas.xmlsoap.org/soap/envelope/''"

definition bNamespaceSoap12 :: bytes where
  "bNamespaceSoap12 = ''http://www.w3.org/2003/05/soap-envelope''"

text \<open>\<^verbatim>\<open>client.go\<close>, lines 276-279.\<close>

definition soapPrefixTagUC :: bytes where
  "soapPrefixTagUC = ''<SOAP''"

definition soapPrefixTagLC :: bytes where
  "soapPrefixTagLC = ''<soap''"

section \<open>Namespace translation\<close>

text \<open>\<^verbatim>\<open>client.go\<close>, lines 281-287.\<close>

definition replaceSoap12to11 :: "bytes \<Rightarrow> bytes" where
  "replaceSoap12to11 data = ReplaceAll data bNamespaceSoap12 bNamespaceSoap11"

definition replaceSoap11to12 :: "bytes \<Rightarrow> bytes" where
  "replaceSoap11to12 data = ReplaceAll data bNamespaceSoap11 bNamespaceSoap12"

section \<open>Data model\<close>

text \<open>\<^verbatim>\<open>client.go\<close>, lines 36-40.\<close>

record BasicAuth =
  Login :: string
  Password :: string

text \<open>
  Modelled from the spec: the types \<^verbatim>\<open>Envelope\<close>, \<^verbatim>\<open>Body\<close>, \<^verbatim>\<open>Fault\<close> and
  \<^verbatim>\<open>dummyContent\<close> are declared in a file of the package that is not among the sources.
  By the spec an Envelope has an optional, opaque Header and one Body; a Body has a
  Content and an optional Fault; a Fault has a code, a string and a detail; the
  placeholder \<^verbatim>\<open>dummyContent\<close> holds no data. \<^verbatim>\<open>Call\<close> reads \<^verbatim>\<open>Body.Fault\<close> as a pointer
  (\<^verbatim>\<open>fault != nil\<close>), hence the option.

  The Content of a response envelope is a pointer: to the caller's response value, or to
  a fresh \<^verbatim>\<open>dummyContent\<close>. The model carries the value the pointer refers to.
\<close>

record Fault =
  faultcode :: string
  faultstring :: string
  detail :: string

record 'c Body =
  Fault :: "Fault option"
  Content :: 'c

record 'c Envelope =
  Header :: "bytes option"
  Body :: "'c Body"

datatype 'r content = Ptr 'r | dummyContent

text \<open>
  \<^verbatim>\<open>encoding/xml\<close> tokens, as far as \<^verbatim>\<open>formatFaultXML\<close> reads them: the local name of
  a start or end element and the bytes of character data. Comments, processing
  instructions and directives are tokens that its \<^verbatim>\<open>switch\<close> has no case for.
\<close>

datatype Token =
    StartElement (Local: string)
  | EndElement (Local: string)
  | CharData bytes
  | Comment bytes
  | ProcInst string bytes
  | Directive bytes

text \<open>
  \<^verbatim>\<open>net/http\<close>: a header maps a canonical key to its values, in order. A request and a
  response are modelled with the fields \<^verbatim>\<open>Call\<close> touches; the fields \<^verbatim>\<open>Header\<close> and
  \<^verbatim>\<open>Body\<close> of Go's \<^verbatim>\<open>http.Request\<close> and \<^verbatim>\<open>http.Response\<close> carry a prefix here, since
  the envelope has fields of the same names. A response body is a stream that is read
  once: the model keeps what \<^verbatim>\<open>ioutil.ReadAll\<close> returns on it, the bytes read and the
  error that ended the read, if any.
\<close>

type_synonym header = "(string \<times> string list) list"

definition Header_Get :: "header \<Rightarrow> string \<Rightarrow> string" where
  "Header_Get h key = (case map_of h key of Some (v # vs) \<Rightarrow> v | _ \<Rightarrow> [])"

definition Header_Set :: "header \<Rightarrow> string \<Rightarrow> string \<Rightarrow> header" where
  "Header_Set h key v = (key, [v]) # filter (\<lambda>kv. fst kv \<noteq> key) h"

definition Header_Add :: "header \<Rightarrow> string \<Rightarrow> string \<Rightarrow> header" where
  "Header_Add h key v =
     (case map_of h key of
        None \<Rightarrow> h @ [(key, [v])]
      | Some vs \<Rightarrow> map (\<lambda>kv. if fst kv = key then (key, vs @ [v]) else kv) h)"

record Request =
  Method :: string
  URL :: string
  ReqBody :: bytes
  ReqHeader :: header
  Close :: bool

record Response =
  Status :: string
  RespHeader :: header
  RespBody :: "bytes \<times> error option"

text \<open>
  \<^verbatim>\<open>mime/multipart\<close>: the reader is a finite stream of parts that is consumed once. Each
  element is the outcome of one \<^verbatim>\<open>NextPart\<close>: an error, or a part together with what
  \<^verbatim>\<open>ioutil.ReadAll\<close> returns on it. The end of the list is \<^verbatim>\<open>io.EOF\<close>.
\<close>

datatype part = NextPart_error error | Part bytes "error option"

text \<open>
  The functions of the Go standard library that the package calls and that work on
  data this model does not look into (XML, URLs, MIME headers, the network) are
  parameters of the model, collected in one record. \<^verbatim>\<open>xml_Unmarshal\<close> fills the envelope
  it is given and may fail after filling part of it, so it returns both. \<^verbatim>\<open>xml_Tokens\<close>
  is the sequence of tokens that successive \<^verbatim>\<open>Decoder.Token\<close> calls return before the
  first call that returns no token or an error. The context argument of
  \<^verbatim>\<open>http.NewRequestWithContext\<close> is not modelled.
\<close>

record ('q, 'r) golib =
  xml_MarshalIndent :: "'q Envelope \<Rightarrow> error + bytes"
  xml_Unmarshal :: "bytes \<Rightarrow> 'r content Envelope \<Rightarrow> 'r content Envelope \<times> error option"
  xml_Tokens :: "bytes \<Rightarrow> Token list"
  xml_EscapeText :: "bytes \<Rightarrow> bytes"
  http_NewRequestWithContext :: "string \<Rightarrow> string \<Rightarrow> bytes \<Rightarrow> error + Request"
  http_basicAuth :: "string \<Rightarrow> string \<Rightarrow> string"
  http_DefaultClient_Do :: "Request \<Rightarrow> error + Response"
  mime_ParseMediaType :: "string \<Rightarrow> string \<times> (string \<rightharpoonup> string) \<times> error option"
  multipart_NewReader :: "bytes \<times> error option \<Rightarrow> string \<Rightarrow> part list"

text \<open>\<^verbatim>\<open>client.go\<close>, lines 20-34: the injected XML implementation and its default.\<close>

record ('q, 'r) XMLMarshaller =
  Marshal :: "'q Envelope \<Rightarrow> error + bytes"
  Unmarshal :: "bytes \<Rightarrow> 'r content Envelope \<Rightarrow> 'r content Envelope \<times> error option"

definition defaultMarshaller :: "('q, 'r) golib \<Rightarrow> ('q, 'r) XMLMarshaller" where
  "defaultMarshaller L = \<lparr>Marshal = xml_MarshalIndent L, Unmarshal = xml_Unmarshal L\<rparr>"

text \<open>
  \<^verbatim>\<open>client.go\<close>, lines 42-54. The field \<^verbatim>\<open>Log\<close> is a sink that \<^verbatim>\<open>Call\<close> only writes to;
  it and the calls to it are left out. \<^verbatim>\<open>Marshaller\<close> and \<^verbatim>\<open>HTTPClientDoFn\<close> are always
  set here, as \<^verbatim>\<open>NewClient\<close> sets them (a nil one makes \<^verbatim>\<open>Call\<close> panic); a nil
  \<^verbatim>\<open>auth\<close> or \<^verbatim>\<open>RequestHeaderFn\<close> is \<open>None\<close>.
\<close>

record ('q, 'r) Client =
  url :: string
  tls :: bool
  auth :: "BasicAuth option"
  Marshaller :: "('q, 'r) XMLMarshaller"
  UserAgent :: string
  ContentType :: string
  RequestHeaderFn :: "(header \<Rightarrow> header) option"
  SoapVersion :: string
  HTTPClientDoFn :: "Request \<Rightarrow> error + Response"

text \<open>\<^verbatim>\<open>client.go\<close>, line 18.\<close>

definition userAgent :: string where
  "userAgent = ''go-soap-1.1''"

text \<open>\<^verbatim>\<open>client.go\<close>, lines 59-79.\<close>

definition NewClient :: "('q, 'r) golib \<Rightarrow> string \<Rightarrow> BasicAuth option \<Rightarrow> ('q, 'r) Client" where
  "NewClient L u a =
     \<lparr>url = u, tls = False, auth = a, Marshaller = defaultMarshaller L, UserAgent = [],
      ContentType = SoapContentType11, RequestHeaderFn = None,
      SoapVersion = SoapVersion11, HTTPClientDoFn = http_DefaultClient_Do L\<rparr>"

definition UseSoap11 :: "('q, 'r) Client \<Rightarrow> ('q, 'r) Client" where
  "UseSoap11 c = c\<lparr>SoapVersion := SoapVersion11, ContentType := SoapContentType11\<rparr>"

definition UseSoap12 :: "('q, 'r) Client \<Rightarrow> ('q, 'r) Client" where
  "UseSoap12 c = c\<lparr>SoapVersion := SoapVersion12, ContentType := SoapContentType12\<rparr>"

section \<open>The fault formatter\<close>

text \<open>
  \<^verbatim>\<open>client.go\<close>, lines 209-274. The local variables of \<^verbatim>\<open>formatFaultXML\<close> that the
  loop updates are the fields of a record; \<^verbatim>\<open>ind\<close> and \<^verbatim>\<open>lf\<close> are its two closures.
\<close>

record fmt =
  level :: int
  out :: bytes
  lastWasStart :: bool
  lastWasCharData :: bool
  lastWasEnd :: bool

definition indent :: string where
  "indent = [CHR 0x09]"

text \<open>\<^verbatim>\<open>strings.Repeat(s, n)\<close> for \<^verbatim>\<open>n \<ge> 0\<close>, the only way \<^verbatim>\<open>ind\<close> calls it.\<close>

definition Repeat :: "string \<Rightarrow> int \<Rightarrow> string" where
  "Repeat s n = concat (replicate (nat n) s)"

definition ind :: "int \<Rightarrow> fmt \<Rightarrow> fmt" where
  "ind startLevel s =
     (let n = (if level s - startLevel - 1 > 0 then level s - startLevel - 1 else 0)
      in s\<lparr>out := out s @ Repeat indent n\<rparr>)"

definition lf :: "fmt \<Rightarrow> fmt" where
  "lf s = s\<lparr>out := out s @ [CHR 0x0A]\<rparr>"

fun formatToken :: "(bytes \<Rightarrow> bytes) \<Rightarrow> int \<Rightarrow> fmt \<Rightarrow> Token \<Rightarrow> fmt" where
  "formatToken esc startLevel s (StartElement elementName) =
     (let s = s\<lparr>lastWasCharData := False\<rparr>;
          s = (if lastWasEnd s \<or> lastWasStart s then lf s else s);
          s = s\<lparr>lastWasStart := True\<rparr>;
          s = ind startLevel s;
          s = (if level s > startLevel
               then s\<lparr>out := out s @ ''<'' @ elementName @ ''>''\<rparr> else s)
      in s\<lparr>level := level s + 1, lastWasEnd := False\<rparr>)"
| "formatToken esc startLevel s (CharData tt) =
     s\<lparr>lastWasCharData := True, lastWasStart := False, out := out s @ esc tt,
       lastWasEnd := False\<rparr>"
| "formatToken esc startLevel s (EndElement endTagName) =
     (let s = s\<lparr>level := level s - 1\<rparr>;
          s = (if lastWasEnd s then ind startLevel (lf s) else s);
          s = s\<lparr>lastWasEnd := True, lastWasStart := False\<rparr>
      in if level s > startLevel
         then s\<lparr>out := out s @ ''</'' @ endTagName @ ''>''\<rparr> else s)"
| "formatToken esc startLevel s _ = s"

text \<open>\<^verbatim>\<open>bytes.Trim(s, cutset)\<close> for a cutset of ASCII bytes.\<close>

definition Trim :: "bytes \<Rightarrow> string \<Rightarrow> bytes" where
  "Trim s cutset =
     rev (dropWhile (\<lambda>b. b \<in> set cutset) (rev (dropWhile (\<lambda>b. b \<in> set cutset) s)))"

definition formatFaultXML :: "('q, 'r) golib \<Rightarrow> bytes \<Rightarrow> int \<Rightarrow> string" where
  "formatFaultXML L xmlBytes startLevel =
     Trim (out (foldl (formatToken (xml_EscapeText L) startLevel)
                  \<lparr>level = 0, out = [], lastWasStart = False, lastWasCharData = False,
                   lastWasEnd = False\<rparr>
                  (xml_Tokens L xmlBytes)))
       [CHR '' '', CHR 0x0A]"

section \<open>Call\<close>

text \<open>
  \<^verbatim>\<open>Call\<close> (\<^verbatim>\<open>client.go\<close>, lines 82-205) returns a pair of an HTTP response pointer and
  an error, either of which may be nil, and writes through the caller's \<^verbatim>\<open>response\<close>
  pointer. The model returns the pair as two options, together with the value the
  caller's pointer refers to after the call (\<open>None\<close> for a nil \<^verbatim>\<open>response\<close>). The
  function is one body in the source; the model names its consecutive blocks, each
  ending in the block that follows it in the source.
\<close>

type_synonym result = "Response option \<times> error option"

text \<open>
  Lines 83-94: marshal the envelope with the injected marshaller, then adjust the
  namespace for SOAP 1.2.
\<close>

definition Call_marshal :: "('q, 'r) Client \<Rightarrow> 'q \<Rightarrow> error + bytes" where
  "Call_marshal c request =
     (let envelope = \<lparr>Header = None, Body = \<lparr>Fault = None, Content = request\<rparr>\<rparr>
      in case Marshal (Marshaller c) envelope of
           Inl err \<Rightarrow> Inl err
         | Inr xmlBytes \<Rightarrow>
             Inr (if SoapVersion c = SoapVersion12 then replaceSoap11to12 xmlBytes
                  else xmlBytes))"

text \<open>\<^verbatim>\<open>req.SetBasicAuth\<close> of \<^verbatim>\<open>net/http\<close>.\<close>

definition SetBasicAuth :: "('q, 'r) golib \<Rightarrow> Request \<Rightarrow> string \<Rightarrow> string \<Rightarrow> Request" where
  "SetBasicAuth L req username password =
     req\<lparr>ReqHeader := Header_Set (ReqHeader req) ''Authorization''
                        (''Basic '' @ http_basicAuth L username password)\<rparr>"

text \<open>
  Lines 96-118: build the request. Header keys are written in the canonical form
  \<^verbatim>\<open>net/http\<close> stores them in.
\<close>

definition Call_request ::
  "('q, 'r) golib \<Rightarrow> ('q, 'r) Client \<Rightarrow> string \<Rightarrow> bytes \<Rightarrow> error + Request" where
  "Call_request L c soapAction xmlBytes =
     (case http_NewRequestWithContext L ''POST'' (url c) xmlBytes of
        Inl err \<Rightarrow> Inl err
      | Inr req \<Rightarrow>
          (let req = (case auth c of
                        None \<Rightarrow> req
                      | Some a \<Rightarrow> SetBasicAuth L req (Login a) (Password a));
               req = req\<lparr>ReqHeader := Header_Add (ReqHeader req) ''Content-Type'' (ContentType c)\<rparr>;
               ua = (if UserAgent c = [] then userAgent else UserAgent c);
               req = req\<lparr>ReqHeader := Header_Set (ReqHeader req) ''User-Agent'' ua\<rparr>;
               req = (if soapAction \<noteq> []
                      then req\<lparr>ReqHeader := Header_Add (ReqHeader req) ''Soapaction'' soapAction\<rparr>
                      else req);
               req = req\<lparr>Close := True\<rparr>
           in Inr (case RequestHeaderFn c of
                     None \<Rightarrow> req
                   | Some f \<Rightarrow> req\<lparr>ReqHeader := f (ReqHeader req)\<rparr>)))"

text \<open>
  Lines 139-156, the loop over the parts: \<open>Inl err\<close> when the loop returns from \<^verbatim>\<open>Call\<close>
  with \<^verbatim>\<open>err\<close>, \<open>Inr (Some slurp)\<close> when it breaks with \<^verbatim>\<open>foundSoap\<close> set and
  \<^verbatim>\<open>rawBody = slurp\<close>, \<open>Inr None\<close> when it breaks at \<^verbatim>\<open>io.EOF\<close>.
\<close>

fun Call_parts :: "part list \<Rightarrow> error + bytes option" where
  "Call_parts [] = Inr None"
| "Call_parts (NextPart_error err # mr) = Inl err"
| "Call_parts (Part slurp (Some err) # mr) = Inl err"
| "Call_parts (Part slurp None # mr) =
     (if HasPrefix slurp soapPrefixTagLC \<or> HasPrefix slurp soapPrefixTagUC
      then Inr (Some slurp)
      else Call_parts mr)"

text \<open>
  Lines 129-176: find the raw body. \<open>Inl\<close> is a return from \<^verbatim>\<open>Call\<close>, \<open>Inr rawBody\<close>
  goes on to line 178.
\<close>

definition Call_rawBody :: "('q, 'r) golib \<Rightarrow> Response \<Rightarrow> result + bytes" where
  "Call_rawBody L httpResponse =
     (case mime_ParseMediaType L (Header_Get (RespHeader httpResponse) ''Content-Type'') of
        (mediaType, params, err) \<Rightarrow>
          if HasPrefix mediaType ''multipart/''
          then
            (case Call_parts (multipart_NewReader L (RespBody httpResponse)
                                (case params ''boundary'' of None \<Rightarrow> [] | Some b \<Rightarrow> b)) of
               Inl err \<Rightarrow> Inl (None, Some err)
             | Inr None \<Rightarrow>
                 Inl (None, Some (errors_New ''multipart message does contain a soapy part''))
             | Inr (Some slurp) \<Rightarrow> Inr slurp)
          else
            (case RespBody httpResponse of
               (rawBody, Some err) \<Rightarrow> Inl (Some httpResponse, Some err)
             | (rawBody, None) \<Rightarrow>
                 if length rawBody = 0 then Inl (Some httpResponse, None)
                 else if \<not> (Contains rawBody soapPrefixTagLC \<or> Contains rawBody soapPrefixTagUC)
                 then Inl (None, Some (errors_New (''This is not a SOAP-Message: \<newline>'' @ rawBody)))
                 else Inr rawBody))"

text \<open>What the caller's \<^verbatim>\<open>response\<close> pointer refers to once the envelope has been filled.\<close>

definition deref :: "'r option \<Rightarrow> 'r content Envelope \<Rightarrow> 'r option" where
  "deref response respEnvelope =
     (case response of
        None \<Rightarrow> None
      | Some r \<Rightarrow> (case Content (Body respEnvelope) of Ptr r' \<Rightarrow> Some r' | dummyContent \<Rightarrow> Some r))"

text \<open>
  Lines 186-204: unmarshal \<^verbatim>\<open>rawBody\<close>, as it is after line 184, into a fresh envelope
  around the caller's response, then check for a fault.
\<close>

definition Call_unmarshal ::
  "('q, 'r) golib \<Rightarrow> Response \<Rightarrow> bytes \<Rightarrow> 'r option \<Rightarrow> result \<times> 'r option" where
  "Call_unmarshal L httpResponse rawBody response =
     (let respEnvelope = \<lparr>Header = None,
                          Body = \<lparr>Fault = None,
                                  Content = (case response of
                                               None \<Rightarrow> dummyContent
                                             | Some r \<Rightarrow> Ptr r)\<rparr>\<rparr>
      in case xml_Unmarshal L rawBody respEnvelope of
           (respEnvelope, Some err) \<Rightarrow>
             ((None, Some (errors_New (''soap/client.go Call(): COULD NOT UNMARSHAL: ''
                                        @ Error err @ ''\<newline>''))),
              deref response respEnvelope)
         | (respEnvelope, None) \<Rightarrow>
             (case Fault (Body respEnvelope) of
                Some fault \<Rightarrow>
                  ((None, Some (errors_New (''SOAP FAULT:\<newline>'' @ formatFaultXML L rawBody 1))),
                   deref response respEnvelope)
              | None \<Rightarrow> ((Some httpResponse, None), deref response respEnvelope)))"

text \<open>Lines 178-204: line 184 reassigns \<^verbatim>\<open>rawBody\<close>, the rest works on the new value.\<close>

definition Call_decode ::
  "('q, 'r) golib \<Rightarrow> Response \<Rightarrow> bytes \<Rightarrow> 'r option \<Rightarrow> result \<times> 'r option" where
  "Call_decode L httpResponse rawBody response =
     (let rawBody = replaceSoap12to11 rawBody
      in Call_unmarshal L httpResponse rawBody response)"

text \<open>Lines 127-204: everything after the transport has answered.\<close>

definition Call_response ::
  "('q, 'r) golib \<Rightarrow> Response \<Rightarrow> 'r option \<Rightarrow> result \<times> 'r option" where
  "Call_response L httpResponse response =
     (case Call_rawBody L httpResponse of
        Inl res \<Rightarrow> (res, response)
      | Inr rawBody \<Rightarrow> Call_decode L httpResponse rawBody response)"

text \<open>Lines 96-204: everything after \<^verbatim>\<open>xmlBytes\<close> has its final value.\<close>

definition Call_send ::
  "('q, 'r) golib \<Rightarrow> ('q, 'r) Client \<Rightarrow> string \<Rightarrow> bytes \<Rightarrow> 'r option \<Rightarrow> result \<times> 'r option" where
  "Call_send L c soapAction xmlBytes response =
     (case Call_request L c soapAction xmlBytes of
        Inl err \<Rightarrow> ((None, Some err), response)
      | Inr req \<Rightarrow>
          (case HTTPClientDoFn c req of
             Inl err \<Rightarrow> ((None, Some err), response)
           | Inr httpResponse \<Rightarrow> Call_response L httpResponse response))"

definition Call ::
  "('q, 'r) golib \<Rightarrow> ('q, 'r) Client \<Rightarrow> string \<Rightarrow> 'q \<Rightarrow> 'r option \<Rightarrow> result \<times> 'r option" where
  "Call L c soapAction request response =
     (case Call_marshal c request of
        Inl err \<Rightarrow> ((None, Some err), response)
      | Inr xmlBytes \<Rightarrow> Call_send L c soapAction xmlBytes response)"

section \<open>A concrete library and client for the examples\<close>

text \<open>
  The examples below run \<^verbatim>\<open>Call\<close> and \<^verbatim>\<open>formatFaultXML\<close> on concrete inputs, so they
  need concrete library functions. Each stand-in agrees with the Go library on the
  inputs the examples reach: XML made of an optional declaration, start tags (with or
  without attributes), end tags and character data free of \<^verbatim>\<open>&\<close>; a valid URL; a
  \<^verbatim>\<open>Content-Type\<close> without parameters. The theorems about all inputs do not use them.
\<close>

definition localName :: "string \<Rightarrow> string" where
  "localName n = (if CHR '':'' \<in> set n then tl (dropWhile (\<lambda>x. x \<noteq> CHR '':'') n) else n)"

text \<open>
  The tokens of a document, read from the left with the stack of open elements: an end
  tag that does not close the innermost open element and a tag that is not closed end
  the sequence, as the error of \<^verbatim>\<open>Decoder.Token\<close> does.
\<close>

function exTokens :: "string list \<Rightarrow> bytes \<Rightarrow> Token list" where
  "exTokens stk [] = []"
| "exTokens stk (c # cs) =
     (if c \<noteq> CHR ''<''
      then CharData (c # takeWhile (\<lambda>x. x \<noteq> CHR ''<'') cs)
             # exTokens stk (dropWhile (\<lambda>x. x \<noteq> CHR ''<'') cs)
      else (case dropWhile (\<lambda>x. x \<noteq> CHR ''>'') cs of
              [] \<Rightarrow> []
            | g # rest \<Rightarrow>
                (case takeWhile (\<lambda>x. x \<noteq> CHR ''>'') cs of
                   [] \<Rightarrow> []
                 | t # tag \<Rightarrow>
                     if t = CHR ''?''
                     then ProcInst (takeWhile (\<lambda>x. x \<noteq> CHR '' '') tag)
                            (butlast (drop 1 (dropWhile (\<lambda>x. x \<noteq> CHR '' '') tag)))
                          # exTokens stk rest
                     else if t = CHR ''/''
                     then (case stk of
                             [] \<Rightarrow> []
                           | open # stk' \<Rightarrow>
                               if open = tag then EndElement (localName tag) # exTokens stk' rest
                               else [])
                     else (let name = takeWhile (\<lambda>x. x \<noteq> CHR '' '') (t # tag)
                           in StartElement (localName name) # exTokens (name # stk) rest))))"
  by pat_completeness auto
termination
proof (relation "measure (\<lambda>(stk, s). length s)")
  show "wf (measure (\<lambda>(stk, s). length s))" by simp
next
  fix stk :: "string list" and c :: char and cs :: bytes
  show "((stk, dropWhile (\<lambda>x. x \<noteq> CHR ''<'') cs), stk, c # cs) \<in> measure (\<lambda>(stk, s). length s)"
    by (simp add: less_Suc_eq_le length_dropWhile_le)
next
  fix stk :: "string list" and c g t :: char and cs rest tag :: bytes
  assume "dropWhile (\<lambda>x. x \<noteq> CHR ''>'') cs = g # rest"
  then have "Suc (length rest) \<le> length cs"
    by (metis length_Cons length_dropWhile_le)
  then show "((stk, rest), stk, c # cs) \<in> measure (\<lambda>(stk, s). length s)" by simp
next
  fix stk stk' :: "string list" and c g t :: char and cs rest tag :: bytes
  assume "dropWhile (\<lambda>x. x \<noteq> CHR ''>'') cs = g # rest"
  then have "Suc (length rest) \<le> length cs"
    by (metis length_Cons length_dropWhile_le)
  then show "((stk', rest), stk, c # cs) \<in> measure (\<lambda>(stk, s). length s)" by simp
next
  fix stk :: "string list" and c g t :: char and cs rest tag name :: bytes
  assume "dropWhile (\<lambda>x. x \<noteq> CHR ''>'') cs = g # rest"
  then have "Suc (length rest) \<le> length cs"
    by (metis length_Cons length_dropWhile_le)
  then show "((name # stk, rest), stk, c # cs) \<in> measure (\<lambda>(stk, s). length s)" by simp
qed

text \<open>\<^verbatim>\<open>xml.EscapeText\<close> on printable ASCII, tab, line feed and carriage return.\<close>

fun escapeByte :: "char \<Rightarrow> string" where
  "escapeByte c =
     (if c = CHR 0x22 then ''&#34;''
      else if c = CHR 0x27 then ''&#39;''
      else if c = CHR ''&'' then ''&amp;''
      else if c = CHR ''<'' then ''&lt;''
      else if c = CHR ''>'' then ''&gt;''
      else if c = CHR 0x09 then ''&#x9;''
      else if c = CHR 0x0A then ''&#xA;''
      else if c = CHR 0x0D then ''&#xD;''
      else [c])"

definition exEscapeText :: "bytes \<Rightarrow> bytes" where
  "exEscapeText s = concat (map escapeByte s)"

text \<open>
  \<^verbatim>\<open>xml.Unmarshal\<close> into an envelope whose Content takes nothing from the document: it
  fails on a document without tokens and fills the Fault when the document has one.
\<close>

fun textOf :: "string \<Rightarrow> Token list \<Rightarrow> string" where
  "textOf name (StartElement n # CharData t # ts) = (if n = name then t else textOf name ts)"
| "textOf name (t # ts) = textOf name ts"
| "textOf name [] = []"

definition exUnmarshal ::
  "bytes \<Rightarrow> 'r content Envelope \<Rightarrow> 'r content Envelope \<times> error option" where
  "exUnmarshal b env =
     (let ts = exTokens [] b
      in if ts = [] then (env, Some (errors_New ''EOF''))
         else if StartElement ''Fault'' \<in> set ts
         then (env\<lparr>Body := (Body env)\<lparr>Fault :=
                      Some \<lparr>faultcode = textOf ''faultcode'' ts,
                            faultstring = textOf ''faultstring'' ts,
                            detail = textOf ''detail'' ts\<rparr>\<rparr>\<rparr>, None)
         else (env, None))"

definition exMarshal :: "bytes Envelope \<Rightarrow> error + bytes" where
  "exMarshal env =
     Inr (''<Envelope xmlns=\"http://schemas.xmlsoap.org/soap/envelope/\"><Body>''
          @ Content (Body env) @ ''</Body></Envelope>'')"

definition exlib :: "(bytes, string) golib" where
  "exlib =
     \<lparr>xml_MarshalIndent = exMarshal,
      xml_Unmarshal = exUnmarshal,
      xml_Tokens = exTokens [],
      xml_EscapeText = exEscapeText,
      http_NewRequestWithContext =
        (\<lambda>method u body.
           Inr \<lparr>Method = method, URL = u, ReqBody = body, ReqHeader = [], Close = False\<rparr>),
      http_basicAuth = (\<lambda>username password. username @ '':'' @ password),
      http_DefaultClient_Do = (\<lambda>req. Inl (errors_New ''dial tcp: connection refused'')),
      mime_ParseMediaType =
        (\<lambda>v. if v = [] then ([], Map.empty, Some (errors_New ''mime: no media type''))
              else (v, Map.empty, None)),
      multipart_NewReader = (\<lambda>body boundary. [])\<rparr>"

text \<open>A server that answers every request with the same response, and its client.\<close>

definition reply :: "string \<Rightarrow> bytes \<times> error option \<Rightarrow> Response" where
  "reply contentType body =
     \<lparr>Status = ''200 OK'', RespHeader = [(''Content-Type'', [contentType])], RespBody = body\<rparr>"

definition exclient :: "Response \<Rightarrow> (bytes, string) Client" where
  "exclient r =
     (NewClient exlib ''http://127.0.0.1:8080/'' None)\<lparr>HTTPClientDoFn := (\<lambda>req. Inr r)\<rparr>"

text \<open>The fragment of the spec's example for the fault formatter.\<close>

definition faultFragment :: bytes where
  "faultFragment =
     ''<soap:Fault><faultcode>A</faultcode><faultstring>B</faultstring></soap:Fault>''"

text \<open>A SOAP 1.2 fault whose text names the SOAP 1.2 namespace.\<close>

definition fault12 :: bytes where
  "fault12 =
     ''<soap:Envelope xmlns:soap=\"http://www.w3.org/2003/05/soap-envelope\"><soap:Body><soap:Fault><faultcode>soap:Sender</faultcode><faultstring>unknown namespace http://www.w3.org/2003/05/soap-envelope</faultstring></soap:Fault></soap:Body></soap:Envelope>''"

text \<open>An empty SOAP 1.1 response behind an XML declaration.\<close>

definition declared11 :: bytes where
  "declared11 =
     ''<?xml version=\"1.0\"?><soap:Envelope xmlns:soap=\"http://schemas.xmlsoap.org/soap/envelope/\"><soap:Body></soap:Body></soap:Envelope>''"

text \<open>
  A library whose multipart reader yields the given parts, for a response with the header
  \<^verbatim>\<open>Content-Type: multipart/related; boundary=xyz\<close>.
\<close>

definition exlib_multipart :: "part list \<Rightarrow> (bytes, string) golib" where
  "exlib_multipart parts =
     exlib\<lparr>mime_ParseMediaType :=
             (\<lambda>v. (''multipart/related'', [''boundary'' \<mapsto> ''xyz''], None)),
           multipart_NewReader := (\<lambda>body boundary. parts)\<rparr>"

definition attachment :: bytes where
  "attachment = ''%PDF-1.4 attachment''"

definition envelope11 :: bytes where
  "envelope11 =
     ''<soap:Envelope xmlns:soap=\"http://schemas.xmlsoap.org/soap/envelope/\"><soap:Body></soap:Body></soap:Envelope>''"

section \<open>Notions used in the statements\<close>

text \<open>
  A part that the loop over the parts reads and passes over: it is read without an
  error and begins with neither SOAP prefix.
\<close>

definition skipped :: "part \<Rightarrow> bool" where
  "skipped p \<longleftrightarrow>
     (case p of
        Part slurp None \<Rightarrow> \<not> HasPrefix slurp soapPrefixTagLC \<and> \<not> HasPrefix slurp soapPrefixTagUC
      | _ \<Rightarrow> False)"

text \<open>
  The version and the content type of a client form a matching pair: the version is
  1.1 exactly when the content type is that of SOAP 1.1, and 1.2 exactly when it is that
  of SOAP 1.2.
\<close>

definition version_matches_contentType :: "('q, 'r) Client \<Rightarrow> bool" where
  "version_matches_contentType c \<longleftrightarrow>
     (SoapVersion c = SoapVersion11 \<longleftrightarrow> ContentType c = SoapContentType11) \<and>
     (SoapVersion c = SoapVersion12 \<longleftrightarrow> ContentType c = SoapContentType12)"

section \<open>Facts about the library calls on byte slices\<close>

lemma Contains_sublist: "Contains s p \<longleftrightarrow> sublist p s"
  by (induction s) (auto simp: sublist_Cons_right)

lemma Contains_drop: "Contains (drop n s) p \<Longrightarrow> Contains s p"
  unfolding Contains_sublist by (meson sublist_drop sublist_order.order_trans)

lemma ReplaceAll_Cons_no:
  "\<not> prefix old (b # bs) \<Longrightarrow> ReplaceAll (b # bs) old new = b # ReplaceAll bs old new"
  by simp

lemma ReplaceAll_prefix_free:
  "prefix p (ReplaceAll s old (c # rest)) \<Longrightarrow> c \<notin> set p \<Longrightarrow> prefix p s"
proof (induction s old "c # rest" arbitrary: p rule: ReplaceAll.induct)
  case (1 old)
  then show ?case by simp
next
  case (2 b bs old)
  show ?case
  proof (cases "old \<noteq> [] \<and> prefix old (b # bs)")
    case True
    with "2.prems" have "p = []" by (cases p) auto
    then show ?thesis by simp
  next
    case False
    show ?thesis
    proof (cases p)
      case Nil
      then show ?thesis by simp
    next
      case (Cons a p')
      with False "2.prems" have "a = b" "prefix p' (ReplaceAll bs old (c # rest))" "c \<notin> set p'"
        by auto
      with "2.hyps"(2)[OF False] Cons show ?thesis by simp
    qed
  qed
qed

lemma ReplaceAll_round_trip:
  assumes "old \<noteq> []" "c \<notin> set rest"
  shows "\<not> Contains s (c # rest) \<Longrightarrow> ReplaceAll (ReplaceAll s old (c # rest)) (c # rest) old = s"
proof (induction s old "c # rest" rule: ReplaceAll.induct)
  case (1 old)
  then show ?case by simp
next
  case (2 b bs old)
  show ?case
  proof (cases "old \<noteq> [] \<and> prefix old (b # bs)")
    case True
    from "2.prems" have "\<not> Contains (drop (length old) (b # bs)) (c # rest)"
      using Contains_drop by blast
    with "2.hyps"(1)[OF True]
    have ih: "ReplaceAll (ReplaceAll (drop (length old) (b # bs)) old (c # rest)) (c # rest) old
        = drop (length old) (b # bs)"
      by simp
    have fwd: "ReplaceAll (b # bs) old (c # rest)
        = (c # rest) @ ReplaceAll (drop (length old) (b # bs)) old (c # rest)"
      using True by simp
    have bwd: "ReplaceAll ((c # rest) @ t) (c # rest) old = old @ ReplaceAll t (c # rest) old" for t
      by simp
    from True have "old @ drop (length old) (b # bs) = b # bs"
      by (metis append_eq_conv_conj prefix_def)
    then show ?thesis unfolding fwd bwd ih .
  next
    case False
    from "2.prems" have nc: "\<not> Contains bs (c # rest)" and np: "\<not> prefix (c # rest) (b # bs)"
      by auto
    have "\<not> prefix (c # rest) (b # ReplaceAll bs old (c # rest))"
    proof
      assume "prefix (c # rest) (b # ReplaceAll bs old (c # rest))"
      then have "c = b" "prefix rest (ReplaceAll bs old (c # rest))" by auto
      with assms(2) have "prefix rest bs" using ReplaceAll_prefix_free by blast
      with \<open>c = b\<close> np show False by simp
    qed
    then have bwd: "ReplaceAll (b # ReplaceAll bs old (c # rest)) (c # rest) old
        = b # ReplaceAll (ReplaceAll bs old (c # rest)) (c # rest) old"
      by (rule ReplaceAll_Cons_no)
    have fwd: "ReplaceAll (b # bs) old (c # rest) = b # ReplaceAll bs old (c # rest)"
      using False by auto
    from "2.hyps"(2)[OF False] nc
    have "ReplaceAll (ReplaceAll bs old (c # rest)) (c # rest) old = bs" by simp
    then show ?thesis unfolding fwd bwd by simp
  qed
qed

section \<open>Namespace translation: the round trip\<close>

text \<open>
  C5, as stated, fails: a payload that contains the SOAP 1.1 namespace literal and the
  SOAP 1.2 literal too comes back with every 1.2 literal turned into 1.1. Here the payload
  is the two literals one after the other.
\<close>

theorem namespace_round_trip_counterexample:
  "Contains (bNamespaceSoap11 @ bNamespaceSoap12) bNamespaceSoap11 \<and>
   replaceSoap12to11 (replaceSoap11to12 (bNamespaceSoap11 @ bNamespaceSoap12))
     \<noteq> bNamespaceSoap11 @ bNamespaceSoap12"
  by code_simp

text \<open>
  C5, amended: for every byte sequence \<open>p\<close> that does not contain the SOAP 1.2 envelope
  namespace literal, translating \<open>p\<close> from 1.1 to 1.2 and then back from 1.2 to 1.1
  yields \<open>p\<close> unchanged. (Whether \<open>p\<close> contains the 1.1 literal does not matter.)
\<close>

theorem namespace_round_trip:
  "\<not> Contains p bNamespaceSoap12 \<Longrightarrow> replaceSoap12to11 (replaceSoap11to12 p) = p"
  unfolding replaceSoap12to11_def replaceSoap11to12_def bNamespaceSoap12_def bNamespaceSoap11_def
  by (rule ReplaceAll_round_trip) simp_all

text \<open>The round trip on an envelope tag in the 1.1 namespace.\<close>

theorem namespace_round_trip_witness:
  "\<not> Contains ''<Envelope xmlns=\"http://schemas.xmlsoap.org/soap/envelope/\">'' bNamespaceSoap12 \<and>
   Contains ''<Envelope xmlns=\"http://schemas.xmlsoap.org/soap/envelope/\">'' bNamespaceSoap11 \<and>
   replaceSoap11to12 ''<Envelope xmlns=\"http://schemas.xmlsoap.org/soap/envelope/\">''
     = ''<Envelope xmlns=\"http://www.w3.org/2003/05/soap-envelope\">'' \<and>
   replaceSoap12to11 (replaceSoap11to12 ''<Envelope xmlns=\"http://schemas.xmlsoap.org/soap/envelope/\">'')
     = ''<Envelope xmlns=\"http://schemas.xmlsoap.org/soap/envelope/\">''"
proof -
  have h: "\<not> Contains ''<Envelope xmlns=\"http://schemas.xmlsoap.org/soap/envelope/\">'' bNamespaceSoap12"
    by code_simp
  have c: "Contains ''<Envelope xmlns=\"http://schemas.xmlsoap.org/soap/envelope/\">'' bNamespaceSoap11"
    by code_simp
  have f: "replaceSoap11to12 ''<Envelope xmlns=\"http://schemas.xmlsoap.org/soap/envelope/\">''
     = ''<Envelope xmlns=\"http://www.w3.org/2003/05/soap-envelope\">''"
    by code_simp
  from namespace_round_trip [OF h] have r: "replaceSoap12to11 (replaceSoap11to12 ''<Envelope xmlns=\"http://schemas.xmlsoap.org/soap/envelope/\">'')
     = ''<Envelope xmlns=\"http://schemas.xmlsoap.org/soap/envelope/\">''" .
  from h c f r show ?thesis by blast
qed

section \<open>The configuration surface\<close>

text \<open>
  C10: \<^verbatim>\<open>NewClient\<close>, \<^verbatim>\<open>UseSoap11\<close> and \<^verbatim>\<open>UseSoap12\<close> each leave the client with
  \<^verbatim>\<open>SoapVersion\<close> and \<^verbatim>\<open>ContentType\<close> forming a matching pair: the version is 1.1
  exactly when the content type is the SOAP 1.1 content type, and 1.2 exactly when it is
  the SOAP 1.2 content type. \<^verbatim>\<open>NewClient\<close> and \<^verbatim>\<open>UseSoap11\<close> select 1.1,
  \<^verbatim>\<open>UseSoap12\<close> selects 1.2.
\<close>

theorem configuration_pairs_version_and_contentType:
  "version_matches_contentType (NewClient L u a) \<and>
   version_matches_contentType (UseSoap11 c) \<and>
   version_matches_contentType (UseSoap12 c) \<and>
   SoapVersion (NewClient L u a) = SoapVersion11 \<and>
   SoapVersion (UseSoap11 c) = SoapVersion11 \<and>
   SoapVersion (UseSoap12 c) = SoapVersion12"
  by (simp add: version_matches_contentType_def NewClient_def UseSoap11_def UseSoap12_def
      SoapVersion11_def SoapVersion12_def SoapContentType11_def SoapContentType12_def)

section \<open>The fault formatter on the fragment of the spec\<close>

text \<open>
  C4, as stated, fails: with \<^verbatim>\<open>startLevel = 1\<close> the formatter does not emit the two
  lines with their tags. The \<^verbatim>\<open>Fault\<close> element is at level 0 and its children are at
  level 1, and a tag is written only at a level greater than \<^verbatim>\<open>startLevel\<close>.
\<close>

theorem formatFaultXML_fragment_counterexample:
  "formatFaultXML exlib faultFragment 1
     \<noteq> ''<faultcode>A</faultcode>\<newline><faultstring>B</faultstring>''"
  by code_simp

text \<open>
  C4, amended: on the fragment
  \<^verbatim>\<open><soap:Fault><faultcode>A</faultcode><faultstring>B</faultstring></soap:Fault>\<close>,
  tokenised as the \<^verbatim>\<open>Fault\<close> element with its two children, the formatter with
  \<^verbatim>\<open>startLevel = 1\<close> emits exactly the two lines \<^verbatim>\<open>A\<close> and \<^verbatim>\<open>B\<close>, all tags elided;
  with \<^verbatim>\<open>startLevel = 0\<close> it emits exactly the two lines
  \<^verbatim>\<open><faultcode>A</faultcode>\<close> and \<^verbatim>\<open><faultstring>B</faultstring>\<close>, with the namespace
  prefixes and the outer \<^verbatim>\<open>Fault\<close> wrapper elided.
\<close>

theorem formatFaultXML_fragment:
  assumes "xml_Tokens L faultFragment =
             [StartElement ''Fault'', StartElement ''faultcode'', CharData ''A'',
              EndElement ''faultcode'', StartElement ''faultstring'', CharData ''B'',
              EndElement ''faultstring'', EndElement ''Fault'']"
    and "xml_EscapeText L ''A'' = ''A''" and "xml_EscapeText L ''B'' = ''B''"
  shows "formatFaultXML L faultFragment 1 = ''A\<newline>B'' \<and>
         formatFaultXML L faultFragment 0
           = ''<faultcode>A</faultcode>\<newline><faultstring>B</faultstring>''"
  using assms
  by (simp add: formatFaultXML_def Trim_def ind_def lf_def Repeat_def indent_def)

text \<open>The concrete library tokenises the fragment that way.\<close>

theorem formatFaultXML_fragment_witness:
  "formatFaultXML exlib faultFragment 1 = ''A\<newline>B'' \<and>
   formatFaultXML exlib faultFragment 0
     = ''<faultcode>A</faultcode>\<newline><faultstring>B</faultstring>''"
proof -
  have t: "xml_Tokens exlib faultFragment =
             [StartElement ''Fault'', StartElement ''faultcode'', CharData ''A'',
              EndElement ''faultcode'', StartElement ''faultstring'', CharData ''B'',
              EndElement ''faultstring'', EndElement ''Fault'']"
    by code_simp
  have a: "xml_EscapeText exlib ''A'' = ''A''" by code_simp
  have b: "xml_EscapeText exlib ''B'' = ''B''" by code_simp
  show ?thesis using formatFaultXML_fragment [OF t a b] .
qed

section \<open>Call: reaching the response\<close>

lemma Call_reaches_response:
  assumes "Call_marshal c request = Inr xmlBytes"
    and "Call_request L c soapAction xmlBytes = Inr req"
    and "HTTPClientDoFn c req = Inr httpResponse"
  shows "Call L c soapAction request response = Call_response L httpResponse response"
  using assms by (simp add: Call_def Call_send_def)

lemma Call_rawBody_single:
  assumes "mime_ParseMediaType L (Header_Get (RespHeader httpResponse) ''Content-Type'')
             = (mediaType, params, perr)"
    and "\<not> HasPrefix mediaType ''multipart/''"
  shows "Call_rawBody L httpResponse =
     (case RespBody httpResponse of
        (rawBody, Some err) \<Rightarrow> Inl (Some httpResponse, Some err)
      | (rawBody, None) \<Rightarrow>
          if length rawBody = 0 then Inl (Some httpResponse, None)
          else if \<not> (Contains rawBody soapPrefixTagLC \<or> Contains rawBody soapPrefixTagUC)
          then Inl (None, Some (errors_New (''This is not a SOAP-Message: \<newline>'' @ rawBody)))
          else Inr rawBody)"
  using assms by (simp add: Call_rawBody_def split: prod.splits option.splits)

lemma Call_rawBody_multipart:
  assumes "mime_ParseMediaType L (Header_Get (RespHeader httpResponse) ''Content-Type'')
             = (mediaType, params, perr)"
    and "HasPrefix mediaType ''multipart/''"
  shows "Call_rawBody L httpResponse =
     (case Call_parts (multipart_NewReader L (RespBody httpResponse)
                         (case params ''boundary'' of None \<Rightarrow> [] | Some b \<Rightarrow> b)) of
        Inl err \<Rightarrow> Inl (None, Some err)
      | Inr None \<Rightarrow>
          Inl (None, Some (errors_New ''multipart message does contain a soapy part''))
      | Inr (Some slurp) \<Rightarrow> Inr slurp)"
  using assms by (simp add: Call_rawBody_def)

lemma Call_parts_skip: "list_all skipped pre \<Longrightarrow> Call_parts (pre @ mr) = Call_parts mr"
proof (induction pre)
  case Nil
  then show ?case by simp
next
  case (Cons p pre)
  then show ?case
    by (cases p) (auto simp: skipped_def split: option.splits)
qed

lemma Call_parts_all_skipped: "list_all skipped mr \<Longrightarrow> Call_parts mr = Inr None"
  using Call_parts_skip [of mr "[]"] by simp

lemma Contains_append_right: "Contains (p @ s) s"
  unfolding Contains_sublist by (rule suffix_imp_sublist) (rule suffix_appendI, rule suffix_order.refl)




section \<open>Call: the empty body\<close>

text \<open>
  C8: for every single-part response whose body is empty, \<^verbatim>\<open>Call\<close> returns the HTTP
  response and a nil error, and the value behind the caller's \<^verbatim>\<open>response\<close> pointer is
  what it was before the call.
\<close>

theorem empty_body_is_success:
  assumes "Call_marshal c request = Inr xmlBytes"
    and "Call_request L c soapAction xmlBytes = Inr req"
    and "HTTPClientDoFn c req = Inr httpResponse"
    and "mime_ParseMediaType L (Header_Get (RespHeader httpResponse) ''Content-Type'')
           = (mediaType, params, perr)"
    and "\<not> HasPrefix mediaType ''multipart/''"
    and "RespBody httpResponse = ([], None)"
  shows "Call L c soapAction request response = ((Some httpResponse, None), response)"
  using assms(6)
  by (simp add: Call_reaches_response [OF assms(1-3)] Call_response_def
      Call_rawBody_single [OF assms(4,5)])

text \<open>A server that answers with a bare status: the caller's response keeps its value.\<close>

theorem empty_body_is_success_witness:
  "Call exlib (exclient (reply ''text/xml'' ([], None))) ''operationFoo'' ''<fooRequest/>'' (Some ''Bar'')
     = ((Some (reply ''text/xml'' ([], None)), None), Some ''Bar'')"
proof -
  let ?r = "reply ''text/xml'' ([], None)"
  let ?sent = "''<Envelope xmlns=\"http://schemas.xmlsoap.org/soap/envelope/\"><Body><fooRequest/></Body></Envelope>''"
  let ?req = "\<lparr>Method = ''POST'', URL = ''http://127.0.0.1:8080/'', ReqBody = ?sent,
       ReqHeader = [(''User-Agent'', [''go-soap-1.1'']), (''Content-Type'', [SoapContentType11]),
                    (''Soapaction'', [''operationFoo''])],
       Close = True\<rparr>"
  have m: "Call_marshal (exclient ?r) ''<fooRequest/>'' = Inr ?sent" by code_simp
  have q: "Call_request exlib (exclient ?r) ''operationFoo'' ?sent = Inr ?req" by code_simp
  have d: "HTTPClientDoFn (exclient ?r) ?req = Inr ?r" by code_simp
  have p: "mime_ParseMediaType exlib (Header_Get (RespHeader ?r) ''Content-Type'')
             = (''text/xml'', Map.empty, None)" by (simp add: exlib_def reply_def Header_Get_def)
  have n: "\<not> HasPrefix ''text/xml'' ''multipart/''" by code_simp
  have b: "RespBody ?r = ([], None)" by code_simp
  show ?thesis using empty_body_is_success [OF m q d p n b] .
qed

section \<open>Call: a body that is not SOAP\<close>

text \<open>
  C3, as stated, fails: a single-part body that begins with an XML declaration, and so
  with neither \<^verbatim>\<open><SOAP\<close> nor \<^verbatim>\<open><soap\<close>, but holds a SOAP envelope after it, is not
  rejected. \<^verbatim>\<open>Call\<close> tests the single-part body with \<^verbatim>\<open>bytes.Contains\<close>, not with
  \<^verbatim>\<open>bytes.HasPrefix\<close>, and here goes on to decode the envelope and to return the response.
\<close>

theorem not_soap_message_counterexample:
  "RespBody (reply ''text/xml'' (declared11, None)) = (declared11, None) \<and>
   mime_ParseMediaType exlib
     (Header_Get (RespHeader (reply ''text/xml'' (declared11, None))) ''Content-Type'')
     = (''text/xml'', Map.empty, None) \<and>
   \<not> HasPrefix ''text/xml'' ''multipart/'' \<and>
   declared11 \<noteq> [] \<and>
   \<not> HasPrefix declared11 soapPrefixTagUC \<and> \<not> HasPrefix declared11 soapPrefixTagLC \<and>
   Call exlib (exclient (reply ''text/xml'' (declared11, None))) ''operationFoo'' ''<fooRequest/>'' None
     = ((Some (reply ''text/xml'' (declared11, None)), None), None)"
proof -
  have p: "mime_ParseMediaType exlib
     (Header_Get (RespHeader (reply ''text/xml'' (declared11, None))) ''Content-Type'')
     = (''text/xml'', Map.empty, None)"
    by (simp add: exlib_def reply_def Header_Get_def)
  have r: "RespBody (reply ''text/xml'' (declared11, None)) = (declared11, None) \<and>
   \<not> HasPrefix ''text/xml'' ''multipart/'' \<and>
   declared11 \<noteq> [] \<and>
   \<not> HasPrefix declared11 soapPrefixTagUC \<and> \<not> HasPrefix declared11 soapPrefixTagLC \<and>
   Call exlib (exclient (reply ''text/xml'' (declared11, None))) ''operationFoo'' ''<fooRequest/>'' None
     = ((Some (reply ''text/xml'' (declared11, None)), None), None)"
    by code_simp
  from p r show ?thesis by blast
qed

text \<open>
  C3, amended: for every single-part response with a non-empty body, if the body contains
  neither \<^verbatim>\<open><SOAP\<close> nor \<^verbatim>\<open><soap\<close> anywhere, \<^verbatim>\<open>Call\<close> returns a nil response and the
  error whose text is \<^verbatim>\<open>This is not a SOAP-Message:\<close>, a line feed and the raw body; the
  text contains the raw body.
\<close>

theorem not_soap_message:
  assumes "Call_marshal c request = Inr xmlBytes"
    and "Call_request L c soapAction xmlBytes = Inr req"
    and "HTTPClientDoFn c req = Inr httpResponse"
    and "mime_ParseMediaType L (Header_Get (RespHeader httpResponse) ''Content-Type'')
           = (mediaType, params, perr)"
    and "\<not> HasPrefix mediaType ''multipart/''"
    and "RespBody httpResponse = (rawBody, None)"
    and "rawBody \<noteq> []"
    and "\<not> Contains rawBody soapPrefixTagUC" and "\<not> Contains rawBody soapPrefixTagLC"
  shows "Call L c soapAction request response
           = ((None, Some (errors_New (''This is not a SOAP-Message: \<newline>'' @ rawBody))), response)
         \<and> Contains (''This is not a SOAP-Message: \<newline>'' @ rawBody) rawBody"
proof -
  have "Contains (''This is not a SOAP-Message: \<newline>'' @ rawBody) rawBody"
    by (rule Contains_append_right)
  then show ?thesis
    using assms(6-9)
    by (simp add: Call_reaches_response [OF assms(1-3)] Call_response_def
        Call_rawBody_single [OF assms(4,5)])
qed

text \<open>A gateway that answers with an HTML page.\<close>

theorem not_soap_message_witness:
  "Call exlib (exclient (reply ''text/html'' (''<html>502 Bad Gateway</html>'', None)))
      ''operationFoo'' ''<fooRequest/>'' (Some ''Bar'')
     = ((None, Some (errors_New ''This is not a SOAP-Message: \<newline><html>502 Bad Gateway</html>'')),
        Some ''Bar'')
   \<and> Contains ''This is not a SOAP-Message: \<newline><html>502 Bad Gateway</html>''
         ''<html>502 Bad Gateway</html>''"
proof -
  let ?body = "''<html>502 Bad Gateway</html>''"
  let ?r = "reply ''text/html'' (?body, None)"
  let ?sent = "''<Envelope xmlns=\"http://schemas.xmlsoap.org/soap/envelope/\"><Body><fooRequest/></Body></Envelope>''"
  let ?req = "\<lparr>Method = ''POST'', URL = ''http://127.0.0.1:8080/'', ReqBody = ?sent,
       ReqHeader = [(''User-Agent'', [''go-soap-1.1'']), (''Content-Type'', [SoapContentType11]),
                    (''Soapaction'', [''operationFoo''])],
       Close = True\<rparr>"
  have m: "Call_marshal (exclient ?r) ''<fooRequest/>'' = Inr ?sent" by code_simp
  have q: "Call_request exlib (exclient ?r) ''operationFoo'' ?sent = Inr ?req" by code_simp
  have d: "HTTPClientDoFn (exclient ?r) ?req = Inr ?r" by code_simp
  have p: "mime_ParseMediaType exlib (Header_Get (RespHeader ?r) ''Content-Type'')
             = (''text/html'', Map.empty, None)" by (simp add: exlib_def reply_def Header_Get_def)
  have n: "\<not> HasPrefix ''text/html'' ''multipart/''" by code_simp
  have b: "RespBody ?r = (?body, None)" by code_simp
  have e: "?body \<noteq> []" by simp
  have u: "\<not> Contains ?body soapPrefixTagUC" by code_simp
  have l: "\<not> Contains ?body soapPrefixTagLC" by code_simp
  show ?thesis using not_soap_message [OF m q d p n b e u l, of "Some ''Bar''"] by simp
qed

section \<open>Call: the fault\<close>

text \<open>
  C1, as stated, fails at its last part: the message of the fault error is not the
  rendering of the bytes as received. Line 184 reassigns \<^verbatim>\<open>rawBody\<close> to its translation
  before line 202 formats it. A SOAP 1.2 fault whose fault string names the SOAP 1.2
  namespace is reported with the SOAP 1.1 namespace in its place.
\<close>

theorem soap_fault_message_counterexample:
  "Call_rawBody exlib (reply ''application/soap+xml'' (fault12, None)) = Inr fault12 \<and>
   Fault (Body (fst (xml_Unmarshal exlib (replaceSoap12to11 fault12)
                       \<lparr>Header = None, Body = \<lparr>Fault = None, Content = dummyContent\<rparr>\<rparr>))) \<noteq> None \<and>
   fst (Call exlib (UseSoap12 (exclient (reply ''application/soap+xml'' (fault12, None))))
          ''operationFoo'' ''<fooRequest/>'' None)
     = (None, Some (errors_New (''SOAP FAULT:\<newline>''
                                  @ formatFaultXML exlib (replaceSoap12to11 fault12) 1))) \<and>
   fst (Call exlib (UseSoap12 (exclient (reply ''application/soap+xml'' (fault12, None))))
          ''operationFoo'' ''<fooRequest/>'' None)
     \<noteq> (None, Some (errors_New (''SOAP FAULT:\<newline>'' @ formatFaultXML exlib fault12 1)))"
  by code_simp

text \<open>
  C1, amended: for every call whose decoded response Body carries a non-empty Fault,
  \<^verbatim>\<open>Call\<close> returns a nil response and the error whose message is \<^verbatim>\<open>SOAP FAULT:\<close>, a line
  feed and the formatted rendering, from start level 1, of the response bytes after the
  1.2-to-1.1 namespace translation has been applied to them: the bytes that were
  unmarshalled.
\<close>

theorem soap_fault_message:
  assumes "Call_marshal c request = Inr xmlBytes"
    and "Call_request L c soapAction xmlBytes = Inr req"
    and "HTTPClientDoFn c req = Inr httpResponse"
    and "Call_rawBody L httpResponse = Inr rawBody"
    and "xml_Unmarshal L (replaceSoap12to11 rawBody)
           \<lparr>Header = None,
            Body = \<lparr>Fault = None,
                    Content = (case response of None \<Rightarrow> dummyContent | Some r \<Rightarrow> Ptr r)\<rparr>\<rparr>
           = (respEnvelope, None)"
    and "Fault (Body respEnvelope) = Some fault"
  shows "fst (Call L c soapAction request response)
           = (None, Some (errors_New (''SOAP FAULT:\<newline>''
                                        @ formatFaultXML L (replaceSoap12to11 rawBody) 1)))"
  using assms(4-6)
  by (simp add: Call_reaches_response [OF assms(1-3)] Call_response_def Call_decode_def
      Call_unmarshal_def)

text \<open>The SOAP 1.2 fault, answered to a client that uses SOAP 1.2.\<close>

theorem soap_fault_message_witness:
  "fst (Call exlib (UseSoap12 (exclient (reply ''application/soap+xml'' (fault12, None))))
          ''operationFoo'' ''<fooRequest/>'' None)
     = (None, Some (errors_New (''SOAP FAULT:\<newline>''
                                  @ formatFaultXML exlib (replaceSoap12to11 fault12) 1)))"
proof -
  let ?r = "reply ''application/soap+xml'' (fault12, None)"
  let ?c = "UseSoap12 (exclient ?r)"
  let ?sent = "''<Envelope xmlns=\"http://www.w3.org/2003/05/soap-envelope\"><Body><fooRequest/></Body></Envelope>''"
  let ?req = "\<lparr>Method = ''POST'', URL = ''http://127.0.0.1:8080/'', ReqBody = ?sent,
       ReqHeader = [(''User-Agent'', [''go-soap-1.1'']), (''Content-Type'', [SoapContentType12]),
                    (''Soapaction'', [''operationFoo''])],
       Close = True\<rparr>"
  let ?fault = "\<lparr>faultcode = ''soap:Sender'',
       faultstring = ''unknown namespace http://schemas.xmlsoap.org/soap/envelope/'',
       detail = []\<rparr>"
  let ?env = "\<lparr>Header = None, Body = \<lparr>Fault = Some ?fault, Content = dummyContent :: string content\<rparr>\<rparr>"
  have m: "Call_marshal ?c ''<fooRequest/>'' = Inr ?sent" by code_simp
  have q: "Call_request exlib ?c ''operationFoo'' ?sent = Inr ?req" by code_simp
  have d: "HTTPClientDoFn ?c ?req = Inr ?r" by code_simp
  have b: "Call_rawBody exlib ?r = Inr fault12" by code_simp
  have u: "xml_Unmarshal exlib (replaceSoap12to11 fault12)
           \<lparr>Header = None,
            Body = \<lparr>Fault = None,
                    Content = (case None :: string option of None \<Rightarrow> dummyContent | Some r \<Rightarrow> Ptr r)\<rparr>\<rparr>
           = (?env, None)" by code_simp
  have f: "Fault (Body ?env) = Some ?fault" by simp
  show ?thesis using soap_fault_message [OF m q d b u f] .
qed

section \<open>Call: the injected XML implementation\<close>

text \<open>
  C2 says that \<^verbatim>\<open>Call\<close> decodes the response with the \<^verbatim>\<open>Unmarshal\<close> of the client's
  \<^verbatim>\<open>Marshaller\<close>. The code does not: line 195 calls \<^verbatim>\<open>xml.Unmarshal\<close> directly, while
  line 87 encodes with \<^verbatim>\<open>c.Marshaller.Marshal\<close>. So the outcome of \<^verbatim>\<open>Call\<close> is the same
  whatever \<^verbatim>\<open>Unmarshal\<close> the client's \<^verbatim>\<open>Marshaller\<close> has.
\<close>

theorem Call_ignores_injected_Unmarshal:
  "Call L (c\<lparr>Marshaller := (Marshaller c)\<lparr>Unmarshal := u\<rparr>\<rparr>) soapAction request response
     = Call L c soapAction request response"
proof -
  let ?c = "c\<lparr>Marshaller := (Marshaller c)\<lparr>Unmarshal := u\<rparr>\<rparr>"
  have m: "Call_marshal ?c request = Call_marshal c request"
    by (simp add: Call_marshal_def split: sum.splits)
  have q: "Call_request L ?c soapAction xmlBytes = Call_request L c soapAction xmlBytes" for xmlBytes
    by (simp add: Call_request_def split: sum.splits)
  have s: "Call_send L ?c soapAction xmlBytes response = Call_send L c soapAction xmlBytes response"
    for xmlBytes
    by (simp add: Call_send_def q split: sum.splits)
  show ?thesis
    by (simp add: Call_def m s split: sum.splits)
qed

text \<open>
  A client whose injected \<^verbatim>\<open>Unmarshal\<close> rejects every document still decodes the
  response and returns it.
\<close>

lemma custom_Unmarshal_is_not_called:
  "Unmarshal (Marshaller ((exclient (reply ''text/xml'' (declared11, None)))
       \<lparr>Marshaller := \<lparr>Marshal = exMarshal,
                        Unmarshal = (\<lambda>b env. (env, Some (errors_New ''custom engine'')))\<rparr>\<rparr>))
     declared11 \<lparr>Header = None, Body = \<lparr>Fault = None, Content = dummyContent\<rparr>\<rparr>
     = (\<lparr>Header = None, Body = \<lparr>Fault = None, Content = dummyContent\<rparr>\<rparr>,
        Some (errors_New ''custom engine'')) \<and>
   Call exlib ((exclient (reply ''text/xml'' (declared11, None)))
       \<lparr>Marshaller := \<lparr>Marshal = exMarshal,
                        Unmarshal = (\<lambda>b env. (env, Some (errors_New ''custom engine'')))\<rparr>\<rparr>)
     ''operationFoo'' ''<fooRequest/>'' None
     = ((Some (reply ''text/xml'' (declared11, None)), None), None)"
  by code_simp

section \<open>Call: the multipart response\<close>

text \<open>
  C6: for every multipart response, \<^verbatim>\<open>Call\<close> takes as the SOAP payload, and goes on to
  decode, the bytes of the first part in stream order that begins with \<^verbatim>\<open><SOAP\<close> or with
  \<^verbatim>\<open><soap\<close>; if the stream ends with no such part, \<^verbatim>\<open>Call\<close> fails with the error that no
  SOAP part was found; if \<^verbatim>\<open>NextPart\<close> or the read of a part fails before such a part is
  found, \<^verbatim>\<open>Call\<close> returns at once with that error.
\<close>

theorem multipart_soap_part:
  assumes "Call_marshal c request = Inr xmlBytes"
    and "Call_request L c soapAction xmlBytes = Inr req"
    and "HTTPClientDoFn c req = Inr httpResponse"
    and "mime_ParseMediaType L (Header_Get (RespHeader httpResponse) ''Content-Type'')
           = (mediaType, params, perr)"
    and "HasPrefix mediaType ''multipart/''"
    and "multipart_NewReader L (RespBody httpResponse)
           (case params ''boundary'' of None \<Rightarrow> [] | Some b \<Rightarrow> b) = mr"
  shows "(mr = pre @ Part slurp None # post \<longrightarrow> list_all skipped pre \<longrightarrow>
            HasPrefix slurp soapPrefixTagUC \<or> HasPrefix slurp soapPrefixTagLC \<longrightarrow>
            Call L c soapAction request response = Call_decode L httpResponse slurp response)
       \<and> (list_all skipped mr \<longrightarrow>
            Call L c soapAction request response
              = ((None, Some (errors_New ''multipart message does contain a soapy part'')),
                 response))
       \<and> (mr = pre @ NextPart_error err # post \<longrightarrow> list_all skipped pre \<longrightarrow>
            Call L c soapAction request response = ((None, Some err), response))
       \<and> (mr = pre @ Part slurp (Some err) # post \<longrightarrow> list_all skipped pre \<longrightarrow>
            Call L c soapAction request response = ((None, Some err), response))"
proof -
  have call: "Call L c soapAction request response =
     (case (case Call_parts mr of
              Inl err \<Rightarrow> Inl (None, Some err)
            | Inr None \<Rightarrow>
                Inl (None, Some (errors_New ''multipart message does contain a soapy part''))
            | Inr (Some slurp) \<Rightarrow> Inr slurp) of
        Inl res \<Rightarrow> (res, response)
      | Inr rawBody \<Rightarrow> Call_decode L httpResponse rawBody response)"
    by (simp add: Call_reaches_response [OF assms(1-3)] Call_response_def
        Call_rawBody_multipart [OF assms(4,5)] assms(6))
  show ?thesis
    by (auto simp: call Call_parts_skip Call_parts_all_skipped)
qed

text \<open>
  Four streams: the envelope as the second of three parts, two attachments only, a
  failing \<^verbatim>\<open>NextPart\<close> and a failing read, each after one attachment.
\<close>

theorem multipart_soap_part_witness:
  "Call (exlib_multipart [Part attachment None, Part envelope11 None, Part attachment None])
      (exclient (reply ''multipart/related; boundary=xyz'' ([], None)))
      ''operationFoo'' ''<fooRequest/>'' None
     = Call_decode (exlib_multipart [Part attachment None, Part envelope11 None, Part attachment None])
         (reply ''multipart/related; boundary=xyz'' ([], None)) envelope11 None
   \<and> Call (exlib_multipart [Part attachment None, Part attachment None])
      (exclient (reply ''multipart/related; boundary=xyz'' ([], None)))
      ''operationFoo'' ''<fooRequest/>'' None
     = ((None, Some (errors_New ''multipart message does contain a soapy part'')), None)
   \<and> Call (exlib_multipart [Part attachment None, NextPart_error (errors_New ''multipart: NextPart: EOF''),
                            Part envelope11 None])
      (exclient (reply ''multipart/related; boundary=xyz'' ([], None)))
      ''operationFoo'' ''<fooRequest/>'' None
     = ((None, Some (errors_New ''multipart: NextPart: EOF'')), None)
   \<and> Call (exlib_multipart [Part attachment None, Part ''<soap'' (Some (errors_New ''unexpected EOF'')),
                            Part envelope11 None])
      (exclient (reply ''multipart/related; boundary=xyz'' ([], None)))
      ''operationFoo'' ''<fooRequest/>'' None
     = ((None, Some (errors_New ''unexpected EOF'')), None)"
proof -
  let ?r = "reply ''multipart/related; boundary=xyz'' ([], None)"
  let ?sent = "''<Envelope xmlns=\"http://schemas.xmlsoap.org/soap/envelope/\"><Body><fooRequest/></Body></Envelope>''"
  let ?req = "\<lparr>Method = ''POST'', URL = ''http://127.0.0.1:8080/'', ReqBody = ?sent,
       ReqHeader = [(''User-Agent'', [''go-soap-1.1'']), (''Content-Type'', [SoapContentType11]),
                    (''Soapaction'', [''operationFoo''])],
       Close = True\<rparr>"
  have m: "Call_marshal (exclient ?r) ''<fooRequest/>'' = Inr ?sent" by code_simp
  have q: "Call_request (exlib_multipart ps) (exclient ?r) ''operationFoo'' ?sent = Inr ?req" for ps
    by (simp add: Call_request_def exlib_multipart_def exlib_def exclient_def NewClient_def
        Header_Add_def Header_Set_def userAgent_def)
  have d: "HTTPClientDoFn (exclient ?r) ?req = Inr ?r" by code_simp
  have p: "mime_ParseMediaType (exlib_multipart ps) (Header_Get (RespHeader ?r) ''Content-Type'')
             = (''multipart/related'', [''boundary'' \<mapsto> ''xyz''], None)" for ps
    by (simp add: exlib_multipart_def)
  have n: "HasPrefix ''multipart/related'' ''multipart/''" by code_simp
  have r: "multipart_NewReader (exlib_multipart ps) (RespBody ?r)
             (case [''boundary'' \<mapsto> ''xyz''] ''boundary'' of None \<Rightarrow> [] | Some b \<Rightarrow> b) = ps" for ps
    by (simp add: exlib_multipart_def)
  have s: "list_all skipped [Part attachment None]" by code_simp
  have s2: "list_all skipped [Part attachment None, Part attachment None]" by code_simp
  have e: "HasPrefix envelope11 soapPrefixTagUC \<or> HasPrefix envelope11 soapPrefixTagLC" by code_simp
  let ?ps1 = "[Part attachment None, Part envelope11 None, Part attachment None]"
  let ?ps2 = "[Part attachment None, Part attachment None]"
  let ?ps3 = "[Part attachment None, NextPart_error (errors_New ''multipart: NextPart: EOF''),
               Part envelope11 None]"
  let ?ps4 = "[Part attachment None, Part ''<soap'' (Some (errors_New ''unexpected EOF'')),
               Part envelope11 None]"
  have 1: "Call (exlib_multipart ?ps1) (exclient ?r) ''operationFoo'' ''<fooRequest/>'' None
     = Call_decode (exlib_multipart ?ps1) ?r envelope11 None"
    using multipart_soap_part [where pre = "[Part attachment None]" and slurp = envelope11
        and post = "[Part attachment None]" and response = None,
        OF m q [of ?ps1] d p [of ?ps1] n r [of ?ps1]] s e
    by simp
  have 2: "Call (exlib_multipart ?ps2) (exclient ?r) ''operationFoo'' ''<fooRequest/>'' None
     = ((None, Some (errors_New ''multipart message does contain a soapy part'')), None)"
    using multipart_soap_part [where response = None,
        OF m q [of ?ps2] d p [of ?ps2] n r [of ?ps2]] s2
    by simp
  have 3: "Call (exlib_multipart ?ps3) (exclient ?r) ''operationFoo'' ''<fooRequest/>'' None
     = ((None, Some (errors_New ''multipart: NextPart: EOF'')), None)"
    using multipart_soap_part [where pre = "[Part attachment None]"
        and err = "errors_New ''multipart: NextPart: EOF''"
        and post = "[Part envelope11 None]" and response = None,
        OF m q [of ?ps3] d p [of ?ps3] n r [of ?ps3]] s
    by simp
  have 4: "Call (exlib_multipart ?ps4) (exclient ?r) ''operationFoo'' ''<fooRequest/>'' None
     = ((None, Some (errors_New ''unexpected EOF'')), None)"
    using multipart_soap_part [where pre = "[Part attachment None]" and slurp = "''<soap''"
        and err = "errors_New ''unexpected EOF''"
        and post = "[Part envelope11 None]" and response = None,
        OF m q [of ?ps4] d p [of ?ps4] n r [of ?ps4]] s
    by simp
  from 1 2 3 4 show ?thesis by blast
qed

section \<open>Call: where the namespace is translated\<close>

text \<open>
  C7: the bytes that \<^verbatim>\<open>Call\<close> sends are the marshalled request translated from 1.1 to 1.2
  if the client's version is 1.2, and the marshalled request as it is otherwise; the bytes
  that \<^verbatim>\<open>Call\<close> unmarshals are the raw body translated from 1.2 to 1.1, for every
  version of the client.
\<close>

theorem namespace_translation_directions:
  "(Marshal (Marshaller c) \<lparr>Header = None, Body = \<lparr>Fault = None, Content = request\<rparr>\<rparr>
      = Inr xmlBytes \<longrightarrow>
    Call L c soapAction request response
      = Call_send L c soapAction
          (if SoapVersion c = SoapVersion12 then replaceSoap11to12 xmlBytes else xmlBytes)
          response)
   \<and> (Call_marshal c request = Inr sent \<longrightarrow>
      Call_request L c soapAction sent = Inr req \<longrightarrow>
      HTTPClientDoFn c req = Inr httpResponse \<longrightarrow>
      Call_rawBody L httpResponse = Inr rawBody \<longrightarrow>
      Call L c soapAction request response
        = Call_unmarshal L httpResponse (replaceSoap12to11 rawBody) response)"
  by (simp add: Call_def Call_marshal_def Call_send_def Call_response_def Call_decode_def)

text \<open>
  A client that uses SOAP 1.2 and a client that uses SOAP 1.1, each answered with the
  SOAP 1.2 fault: only the first sends the 1.2 namespace, both unmarshal the translated
  body, which differs from the raw one.
\<close>

theorem namespace_translation_directions_witness:
  "Call exlib (UseSoap12 (exclient (reply ''application/soap+xml'' (fault12, None))))
       ''operationFoo'' ''<fooRequest/>'' None
     = Call_send exlib (UseSoap12 (exclient (reply ''application/soap+xml'' (fault12, None))))
         ''operationFoo''
         ''<Envelope xmlns=\"http://www.w3.org/2003/05/soap-envelope\"><Body><fooRequest/></Body></Envelope>''
         None
   \<and> Call exlib (exclient (reply ''application/soap+xml'' (fault12, None)))
       ''operationFoo'' ''<fooRequest/>'' None
     = Call_send exlib (exclient (reply ''application/soap+xml'' (fault12, None)))
         ''operationFoo''
         ''<Envelope xmlns=\"http://schemas.xmlsoap.org/soap/envelope/\"><Body><fooRequest/></Body></Envelope>''
         None
   \<and> Call exlib (UseSoap12 (exclient (reply ''application/soap+xml'' (fault12, None))))
       ''operationFoo'' ''<fooRequest/>'' None
     = Call_unmarshal exlib (reply ''application/soap+xml'' (fault12, None))
         (replaceSoap12to11 fault12) None
   \<and> Call exlib (exclient (reply ''application/soap+xml'' (fault12, None)))
       ''operationFoo'' ''<fooRequest/>'' None
     = Call_unmarshal exlib (reply ''application/soap+xml'' (fault12, None))
         (replaceSoap12to11 fault12) None
   \<and> replaceSoap12to11 fault12 \<noteq> fault12"
proof -
  let ?r = "reply ''application/soap+xml'' (fault12, None)"
  let ?c12 = "UseSoap12 (exclient ?r)"
  let ?c11 = "exclient ?r"
  let ?xml = "''<Envelope xmlns=\"http://schemas.xmlsoap.org/soap/envelope/\"><Body><fooRequest/></Body></Envelope>''"
  let ?sent12 = "''<Envelope xmlns=\"http://www.w3.org/2003/05/soap-envelope\"><Body><fooRequest/></Body></Envelope>''"
  let ?req11 = "\<lparr>Method = ''POST'', URL = ''http://127.0.0.1:8080/'', ReqBody = ?xml,
       ReqHeader = [(''User-Agent'', [''go-soap-1.1'']), (''Content-Type'', [SoapContentType11]),
                    (''Soapaction'', [''operationFoo''])],
       Close = True\<rparr>"
  let ?req12 = "\<lparr>Method = ''POST'', URL = ''http://127.0.0.1:8080/'', ReqBody = ?sent12,
       ReqHeader = [(''User-Agent'', [''go-soap-1.1'']), (''Content-Type'', [SoapContentType12]),
                    (''Soapaction'', [''operationFoo''])],
       Close = True\<rparr>"
  have m12: "Marshal (Marshaller ?c12) \<lparr>Header = None, Body = \<lparr>Fault = None, Content = ''<fooRequest/>''\<rparr>\<rparr>
      = Inr ?xml" by code_simp
  have m11: "Marshal (Marshaller ?c11) \<lparr>Header = None, Body = \<lparr>Fault = None, Content = ''<fooRequest/>''\<rparr>\<rparr>
      = Inr ?xml" by code_simp
  have v12: "SoapVersion ?c12 = SoapVersion12" by code_simp
  have v11: "SoapVersion ?c11 \<noteq> SoapVersion12" by code_simp
  have t: "replaceSoap11to12 ?xml = ?sent12" by code_simp
  have cm12: "Call_marshal ?c12 ''<fooRequest/>'' = Inr ?sent12" by code_simp
  have cm11: "Call_marshal ?c11 ''<fooRequest/>'' = Inr ?xml" by code_simp
  have q12: "Call_request exlib ?c12 ''operationFoo'' ?sent12 = Inr ?req12" by code_simp
  have q11: "Call_request exlib ?c11 ''operationFoo'' ?xml = Inr ?req11" by code_simp
  have d12: "HTTPClientDoFn ?c12 ?req12 = Inr ?r" by code_simp
  have d11: "HTTPClientDoFn ?c11 ?req11 = Inr ?r" by code_simp
  have b: "Call_rawBody exlib ?r = Inr fault12" by code_simp
  have ne: "replaceSoap12to11 fault12 \<noteq> fault12" by code_simp
  have 1: "Call exlib ?c12 ''operationFoo'' ''<fooRequest/>'' None
             = Call_send exlib ?c12 ''operationFoo'' ?sent12 None"
    using namespace_translation_directions [where c = ?c12 and L = exlib
        and request = "''<fooRequest/>''" and xmlBytes = ?xml and soapAction = "''operationFoo''"
        and response = None, THEN conjunct1] m12 v12 t
    by simp
  have 2: "Call exlib ?c11 ''operationFoo'' ''<fooRequest/>'' None
             = Call_send exlib ?c11 ''operationFoo'' ?xml None"
    using namespace_translation_directions [where c = ?c11 and L = exlib
        and request = "''<fooRequest/>''" and xmlBytes = ?xml and soapAction = "''operationFoo''"
        and response = None, THEN conjunct1] m11 v11
    by simp
  have 3: "Call exlib ?c12 ''operationFoo'' ''<fooRequest/>'' None
             = Call_unmarshal exlib ?r (replaceSoap12to11 fault12) None"
    using namespace_translation_directions [where c = ?c12 and L = exlib
        and request = "''<fooRequest/>''" and sent = ?sent12 and soapAction = "''operationFoo''"
        and req = ?req12 and httpResponse = ?r and rawBody = fault12
        and response = None, THEN conjunct2] cm12 q12 d12 b
    by simp
  have 4: "Call exlib ?c11 ''operationFoo'' ''<fooRequest/>'' None
             = Call_unmarshal exlib ?r (replaceSoap12to11 fault12) None"
    using namespace_translation_directions [where c = ?c11 and L = exlib
        and request = "''<fooRequest/>''" and sent = ?xml and soapAction = "''operationFoo''"
        and req = ?req11 and httpResponse = ?r and rawBody = fault12
        and response = None, THEN conjunct2] cm11 q11 d11 b
    by simp
  from 1 2 3 4 ne show ?thesis by blast
qed

section \<open>Call: the response that comes with an error\<close>



end
